theory Spec2Isabelle
  imports Main "HOL-Library.Word"
begin

unbundle bit_operations_syntax

section \<open>Go values used by package eval\<close>

text \<open>
  \<open>int64\<close> is a 64-bit word read as two's complement (\<open>sint\<close>). A \<open>float64\<close> is
  kept as its IEEE 754 binary64 bit pattern: sign bit 63, exponent bits 62..52, fraction
  bits 51..0. Go's \<open>int\<close> values (\<open>len\<close>, the row length) are only compared with 1 in
  this package, so they are plain integers.
\<close>

type_synonym int64 = "64 word"
type_synonym float64 = "64 word"
type_synonym bytes = "8 word list"

definition float64_abs_bits :: "float64 \<Rightarrow> 64 word" where
  "float64_abs_bits v = v AND 0x7FFFFFFFFFFFFFFF"

definition float64_isNaN :: "float64 \<Rightarrow> bool" where
  "float64_isNaN v = (0x7FF0000000000000 < float64_abs_bits v)"

text \<open>Go's \<open>a == b\<close> on float64: a NaN equals nothing, the two zeros are equal.\<close>

definition float64_eq :: "float64 \<Rightarrow> float64 \<Rightarrow> bool" where
  "float64_eq a b =
     (\<not> float64_isNaN a \<and> \<not> float64_isNaN b \<and>
      (a = b \<or> (float64_abs_bits a = 0 \<and> float64_abs_bits b = 0)))"

definition float64_zero :: float64 where
  "float64_zero = 0"


section \<open>Errors and outcomes\<close>

text \<open>
  The SDK's field type enumeration: the package names one member,
  \<open>data.FieldTypeNullableFloat64\<close>; every other member is \<open>FieldTypeOther k\<close>.
\<close>

datatype FieldType = FieldTypeNullableFloat64 | FieldTypeOther nat

text \<open>
  An \<open>error\<close> is either built here by \<open>fmt.Errorf(format, args...)\<close>, kept as the
  format string with its arguments, or it is an error value handed over by a collaborator
  (the data SDK, the transform client, the frame decoder), kept by its message.
\<close>

datatype error = Errorf string "arg list" | LibError string
and arg = ArgString string | ArgInt int | ArgFieldType FieldType | ArgError error

text \<open>A call either returns its Go result values or panics with a runtime error.\<close>

datatype 'a outcome = Panic string | Return 'a

section \<open>Frames of the data SDK\<close>

type_synonym Labels = "string \<rightharpoonup> string"

record 'v Field =
  Labels :: Labels
  vector :: 'v

record 'v Frame =
  Name :: string
  Fields :: "'v Field list"

text \<open>
  The methods of the data SDK that \<open>EvaluateExecutionResult\<close> calls. The SDK is a
  separate module, so its methods are parameters of the model, each with the type of its
  Go signature: \<open>(*Frame).RowLen() (int, error)\<close>, \<open>(*Field).Type() FieldType\<close>,
  \<open>Labels.String() string\<close> and \<open>(*Field).FloatAt(idx int) (float64, error)\<close>.
  \<open>'v\<close> is whatever a field's value vector holds. A method returns the values of its
  signature; a panic raised inside the SDK is not modelled.
\<close>

record 'v sdk =
  RowLen :: "'v Frame \<Rightarrow> error + int"
  Type :: "'v Field \<Rightarrow> FieldType"
  Labels_String :: "Labels \<Rightarrow> string"
  FloatAt :: "'v Field \<Rightarrow> int \<Rightarrow> error + float64"

section \<open>Results of an evaluation\<close>

datatype state = normal | Alerting

record result =
  Instance :: Labels
  State :: state

type_synonym results = "result list"

record 'v executionResults =
  AlertDefinitionID :: int64
  Error :: "error option"
  Results :: "'v Frame list"

section \<open>EvaluateExecutionResult\<close>

text \<open>
  The body of \<open>for _, f := range results.Results\<close>. \<open>labels\<close> is the
  \<open>map[string]bool\<close> of label strings seen so far and \<open>evalResults\<close> the slice
  appended to. Every \<open>return nil, fmt.Errorf(...)\<close> of the source is a
  \<open>Return ([], Some ...)\<close> here; \<open>f.Fields[0]\<close> on an empty slice is Go's
  index-out-of-range panic.
\<close>

fun EvaluateExecutionResult_loop ::
  "'v sdk \<Rightarrow> (string \<rightharpoonup> bool) \<Rightarrow> results \<Rightarrow> 'v Frame list \<Rightarrow> (results \<times> error option) outcome"
where
  "EvaluateExecutionResult_loop api labels evalResults [] = Return (evalResults, None)"
| "EvaluateExecutionResult_loop api labels evalResults (f # fs) =
     (case RowLen api f of
        Inl err \<Rightarrow>
          Return ([], Some (Errorf ''unable to get frame row length: %w'' [ArgError err]))
      | Inr rowLen \<Rightarrow>
          if rowLen > 1 then
            Return ([], Some (Errorf ''invalid frame %q: row length: %v''
                                [ArgString (Name f), ArgInt rowLen]))
          else if int (length (Fields f)) > 1 then
            Return ([], Some (Errorf ''invalid frame %q: field length %v''
                                [ArgString (Name f), ArgInt (int (length (Fields f)))]))
          else
            (case Fields f of
               [] \<Rightarrow> Panic ''runtime error: index out of range [0] with length 0''
             | f0 # _ \<Rightarrow>
                 if Type api f0 \<noteq> FieldTypeNullableFloat64 then
                   Return ([], Some (Errorf ''invalid frame %q: field type %v''
                                       [ArgString (Name f), ArgFieldType (Type api f0)]))
                 else
                   (let labelsStr = Labels_String api (Labels f0) in
                    case labels labelsStr of
                      Some _ \<Rightarrow>
                        Return ([], Some (Errorf
                          ''invalid frame %q: frames cannot uniquely be identified by its labels: %q''
                          [ArgString (Name f), ArgString labelsStr]))
                    | None \<Rightarrow>
                        (let labels' = labels(labelsStr \<mapsto> True);
                             state = (case FloatAt api f0 0 of
                                        Inl err \<Rightarrow> Alerting
                                      | Inr val \<Rightarrow>
                                          if \<not> float64_eq val float64_zero then Alerting
                                          else normal)
                         in EvaluateExecutionResult_loop api labels'
                              (evalResults @ [\<lparr>Instance = Labels f0, State = state\<rparr>]) fs))))"

definition EvaluateExecutionResult ::
  "'v sdk \<Rightarrow> 'v executionResults \<Rightarrow> (results \<times> error option) outcome"
where
  "EvaluateExecutionResult api results =
     EvaluateExecutionResult_loop api Map.empty [] (Results results)"

section \<open>Conditions and the transform request\<close>

text \<open>
  Go's \<open>/\<close> on integers truncates toward zero. \<open>int64_quo\<close> is that quotient
  on 64-bit two's complement values (the divisor is the constant \<open>1e6\<close> wherever the
  package divides, so division by zero does not arise).
\<close>

definition go_quo :: "int \<Rightarrow> int \<Rightarrow> int" where
  "go_quo a b = sgn a * sgn b * (\<bar>a\<bar> div \<bar>b\<bar>)"

definition int64_quo :: "int64 \<Rightarrow> int64 \<Rightarrow> int64" where
  "int64_quo a b = word_of_int (go_quo (sint a) (sint b))"

text \<open>
  A \<open>time.Duration\<close> is an int64 count of nanoseconds; \<open>Milliseconds()\<close> is
  \<open>int64(d) / 1e6\<close>. A \<open>time.Time\<close> is read only through \<open>UnixNano()\<close>, so an
  instant is kept as that int64 count of nanoseconds since the epoch.
\<close>

type_synonym Duration = int64

definition Milliseconds :: "Duration \<Rightarrow> int64" where
  "Milliseconds d = int64_quo d 1000000"

datatype Time = Time (UnixNano: int64)

record backend_TimeRange =
  From :: Time
  To :: Time

record backend_DataQuery =
  RefID :: string
  QueryType :: string
  MaxDataPoints :: int64
  Interval :: Duration
  TimeRange :: backend_TimeRange
  JSON :: bytes

record pluginv2_TimeRange =
  FromEpochMS :: int64
  ToEpochMS :: int64

record pluginv2_DataQuery =
  pb_RefId :: string
  pb_MaxDataPoints :: int64
  pb_IntervalMS :: int64
  pb_TimeRange :: pluginv2_TimeRange
  pb_Json :: bytes
  pb_QueryType :: string

record QueryDataRequest =
  Queries :: "pluginv2_DataQuery list"

record DataResponse =
  Frames :: "bytes list"

text \<open>
  \<open>Responses\<close> is a Go map from refID to response. It is kept as the list of its
  entries in the order \<open>range\<close> visits them, which Go leaves unspecified: a statement
  that holds for every list holds for every visiting order.
\<close>

record QueryDataResponse =
  Responses :: "(string \<times> DataResponse) list"

record Condition =
  cond_RefID :: string
  QueriesAndExpressions :: "backend_DataQuery list"

definition IsValid :: "Condition \<Rightarrow> bool" where
  "IsValid c = (length (QueriesAndExpressions c) \<noteq> 0)"

section \<open>Execute\<close>

text \<open>
  The loop \<open>for i := range c.QueriesAndExpressions\<close>: \<open>queries\<close> is
  \<open>pbQuery.Queries\<close>, appended to once per query.
\<close>

fun Execute_queries :: "pluginv2_DataQuery list \<Rightarrow> backend_DataQuery list \<Rightarrow> pluginv2_DataQuery list"
where
  "Execute_queries queries [] = queries"
| "Execute_queries queries (q # qs) =
     Execute_queries
       (queries @
        [\<lparr>pb_RefId = RefID q,
          pb_MaxDataPoints = MaxDataPoints q,
          pb_IntervalMS = Milliseconds (Interval q),
          pb_TimeRange =
            \<lparr>FromEpochMS = int64_quo (UnixNano (From (TimeRange q))) 1000000,
             ToEpochMS = int64_quo (UnixNano (To (TimeRange q))) 1000000\<rparr>,
          pb_Json = JSON q,
          pb_QueryType = QueryType q\<rparr>])
       qs"

text \<open>
  The loop \<open>for refID, res := range pbRes.Responses\<close>. \<open>Decoded\<close> stands for
  \<open>tsdb.NewEncodedDataFrames(res.Frames).Decoded()\<close>, whose code is outside the
  excerpt; it returns Go's pair of frames and error. \<open>Inl\<close> is the \<open>return\<close> inside
  the loop, \<open>Inr\<close> the \<open>result\<close> the loop ends with.
\<close>

fun Execute_responses ::
  "(bytes list \<Rightarrow> 'v Frame list \<times> error option) \<Rightarrow> string \<Rightarrow> 'v executionResults \<Rightarrow>
   (string \<times> DataResponse) list \<Rightarrow>
   ('v executionResults option \<times> error option) + 'v executionResults"
where
  "Execute_responses Decoded cRefID result [] = Inr result"
| "Execute_responses Decoded cRefID result ((refID, res) # rest) =
     (if refID \<noteq> cRefID then Execute_responses Decoded cRefID result rest
      else
        (case Decoded (Frames res) of
           (frames, err) \<Rightarrow>
             (case err of
                Some e \<Rightarrow> Inl (Some (result\<lparr>Results := frames, Error := Some e\<rparr>), Some e)
              | None \<Rightarrow> Execute_responses Decoded cRefID (result\<lparr>Results := frames\<rparr>) rest)))"

text \<open>
  \<open>Execute\<close> returns Go's pair \<open>(*executionResults, error)\<close>, a nil pointer being
  \<open>None\<close>, together with the requests it sent to the transform client, in order.
  \<open>TransformData\<close> stands for \<open>tw.TransformClient.TransformData(ctx.Ctx, pbQuery,
  tw.Callback)\<close>. The arguments \<open>ctx\<close>, \<open>fromStr\<close> and \<open>toStr\<close> are not read by the
  body apart from handing \<open>ctx.Ctx\<close> to the client, and are left out.
\<close>

definition Execute ::
  "(QueryDataRequest \<Rightarrow> error + QueryDataResponse) \<Rightarrow>
   (bytes list \<Rightarrow> 'v Frame list \<times> error option) \<Rightarrow> Condition \<Rightarrow>
   ('v executionResults option \<times> error option) \<times> QueryDataRequest list"
where
  "Execute TransformData Decoded c =
     (let result = \<lparr>AlertDefinitionID = 0, Error = None, Results = []\<rparr> in
      if \<not> IsValid c then ((None, Some (Errorf ''invalid conditions'' [])), [])
      else
        (let pbQuery = \<lparr>Queries = Execute_queries [] (QueriesAndExpressions c)\<rparr> in
         case TransformData pbQuery of
           Inl err \<Rightarrow> ((Some result, Some err), [pbQuery])
         | Inr pbRes \<Rightarrow>
             (case Execute_responses Decoded (cond_RefID c) result (Responses pbRes) of
                Inl returned \<Rightarrow> (returned, [pbQuery])
              | Inr result' \<Rightarrow>
                  if length (Results result') = 0 then
                    ((Some (result'\<lparr>Error := Some (Errorf ''no GEL results'' [])\<rparr>),
                      Some (Errorf ''no GEL results'' [])), [pbQuery])
                  else ((Some result', None), [pbQuery]))))"

section \<open>Series that pass the checks\<close>

text \<open>
  Predicates on the input, used to state what \<open>EvaluateExecutionResult\<close> does.
  \<open>passes\<close>: the row length reads without error and is at most one, there is exactly
  one field, and it is a nullable float64. \<open>labelsStr_of\<close> is the string the
  uniqueness check computes for a series, \<open>accepted\<close> a run of series that all pass,
  with pairwise different label strings.
\<close>

definition passes :: "'v sdk \<Rightarrow> 'v Frame \<Rightarrow> bool" where
  "passes api f =
     ((case RowLen api f of Inl err \<Rightarrow> False | Inr rowLen \<Rightarrow> rowLen \<le> 1) \<and>
      length (Fields f) = 1 \<and>
      Type api (hd (Fields f)) = FieldTypeNullableFloat64)"

definition labelsStr_of :: "'v sdk \<Rightarrow> 'v Frame \<Rightarrow> string" where
  "labelsStr_of api f = Labels_String api (Labels (hd (Fields f)))"

definition accepted :: "'v sdk \<Rightarrow> 'v Frame list \<Rightarrow> bool" where
  "accepted api fs = (list_all (passes api) fs \<and> distinct (map (labelsStr_of api) fs))"

text \<open>
  \<open>violates api seen f\<close>: the series breaks one of the rules, \<open>seen\<close> being the label
  strings of the series before it: its row length cannot be read or exceeds one, it has
  more than one field, or its single field has another type or a label string already
  seen.
\<close>

definition violates :: "'v sdk \<Rightarrow> string set \<Rightarrow> 'v Frame \<Rightarrow> bool" where
  "violates api seen f =
     ((case RowLen api f of Inl err \<Rightarrow> True | Inr rowLen \<Rightarrow> 1 < rowLen) \<or>
      1 < length (Fields f) \<or>
      (length (Fields f) = 1 \<and>
       (Type api (hd (Fields f)) \<noteq> FieldTypeNullableFloat64 \<or> labelsStr_of api f \<in> seen)))"

text \<open>The state and the result the loop body computes for a series that passes.\<close>

definition read_state :: "'v sdk \<Rightarrow> 'v Field \<Rightarrow> state" where
  "read_state api f0 =
     (case FloatAt api f0 0 of
        Inl err \<Rightarrow> Alerting
      | Inr val \<Rightarrow> if \<not> float64_eq val float64_zero then Alerting else normal)"

definition verdict :: "'v sdk \<Rightarrow> 'v Frame \<Rightarrow> result" where
  "verdict api f =
     \<lparr>Instance = Labels (hd (Fields f)), State = read_state api (hd (Fields f))\<rparr>"

definition mark_seen :: "'v sdk \<Rightarrow> (string \<rightharpoonup> bool) \<Rightarrow> 'v Frame list \<Rightarrow> (string \<rightharpoonup> bool)" where
  "mark_seen api labels pre =
     (\<lambda>s. if s \<in> set (map (labelsStr_of api) pre) then Some True else labels s)"

text \<open>The descriptor the loop of \<open>Execute\<close> appends for one query.\<close>

definition Execute_query :: "backend_DataQuery \<Rightarrow> pluginv2_DataQuery" where
  "Execute_query q =
     \<lparr>pb_RefId = RefID q,
      pb_MaxDataPoints = MaxDataPoints q,
      pb_IntervalMS = Milliseconds (Interval q),
      pb_TimeRange =
        \<lparr>FromEpochMS = int64_quo (UnixNano (From (TimeRange q))) 1000000,
         ToEpochMS = int64_quo (UnixNano (To (TimeRange q))) 1000000\<rparr>,
      pb_Json = JSON q,
      pb_QueryType = QueryType q\<rparr>"

section \<open>Sample inputs\<close>

text \<open>
  Concrete inputs on which the definitions are run. \<open>sample_sdk\<close> is one implementation
  of the SDK interface, over fields whose vector is a declared type with a list of
  nullable floats. The row length is the common length of the fields (0 without fields,
  an error when the lengths differ), the label string prints the label \<open>instance\<close>, the
  only one the sample frames carry, and a nil value reads as a NaN. A read outside the
  column panics in the SDK; the result type of \<open>FloatAt\<close> has no value for that, so the
  sample leaves such a read unspecified, and no statement below evaluates one.
\<close>

definition float64_NaN :: float64 where
  "float64_NaN = 0x7FF8000000000001"

definition sample_sdk :: "(FieldType \<times> float64 option list) sdk" where
  "sample_sdk =
     \<lparr>RowLen = (\<lambda>f. case Fields f of
                        [] \<Rightarrow> Inr 0
                      | f0 # rest \<Rightarrow>
                          if list_all (\<lambda>g. length (snd (vector g)) = length (snd (vector f0))) rest
                          then Inr (int (length (snd (vector f0))))
                          else Inl (LibError ''frame has different field lengths'')),
      Type = (\<lambda>f0. fst (vector f0)),
      Labels_String = (\<lambda>l. case l ''instance'' of
                               None \<Rightarrow> []
                             | Some v \<Rightarrow> ''instance='' @ v),
      FloatAt = (\<lambda>f0 i.
        if 0 \<le> i \<and> nat i < length (snd (vector f0)) then
          (case snd (vector f0) ! nat i of None \<Rightarrow> Inr float64_NaN | Some v \<Rightarrow> Inr v)
        else undefined)\<rparr>"

definition sample_field ::
  "string \<Rightarrow> FieldType \<Rightarrow> float64 option list \<Rightarrow> (FieldType \<times> float64 option list) Field"
where
  "sample_field inst ty vs = \<lparr>Labels = [''instance'' \<mapsto> inst], vector = (ty, vs)\<rparr>"

definition sample_frame ::
  "string \<Rightarrow> string \<Rightarrow> float64 option list \<Rightarrow> (FieldType \<times> float64 option list) Frame"
where
  "sample_frame name inst vs =
     \<lparr>Name = name, Fields = [sample_field inst FieldTypeNullableFloat64 vs]\<rparr>"

definition sample_query :: backend_DataQuery where
  "sample_query =
     \<lparr>RefID = ''A'', QueryType = ''math'', MaxDataPoints = 100, Interval = 1500000999,
      TimeRange = \<lparr>From = Time 1600000000123456789, To = Time (- 1999999)\<rparr>,
      JSON = [123, 125]\<rparr>"

definition sample_condition :: Condition where
  "sample_condition = \<lparr>cond_RefID = ''A'', QueriesAndExpressions = [sample_query]\<rparr>"

definition failing_client :: "QueryDataRequest \<Rightarrow> error + QueryDataResponse" where
  "failing_client req = Inl (LibError ''transform: connection refused'')"

definition no_frames ::
  "bytes list \<Rightarrow> (FieldType \<times> float64 option list) Frame list \<times> error option"
where
  "no_frames payload = ([], None)"

text \<open>
  A client that answers with entries for two refIDs, and a decoder that yields no frame
  for an empty payload and one frame otherwise.
\<close>

definition sample_client :: "QueryDataRequest \<Rightarrow> error + QueryDataResponse" where
  "sample_client req =
     Inr \<lparr>Responses = [(''B'', \<lparr>Frames = [[1, 2, 3]]\<rparr>), (''A'', \<lparr>Frames = []\<rparr>)]\<rparr>"

definition sample_Decoded ::
  "bytes list \<Rightarrow> (FieldType \<times> float64 option list) Frame list \<times> error option"
where
  "sample_Decoded payload =
     (if payload = [] then ([], None) else ([sample_frame ''decoded'' ''a'' [Some 0]], None))"

section \<open>Execute: the invalid condition and the failed remote call\<close>

text \<open>
  C10. A Condition whose query list is empty makes \<open>Execute\<close> return a nil result with
  the error \<open>invalid conditions\<close>, and the list of requests sent to the transform client
  is empty: no remote call is made, whatever the client and the decoder are.
\<close>

theorem Execute_invalid_condition:
  assumes "QueriesAndExpressions c = []"
  shows "Execute TransformData Decoded c =
         ((None, Some (Errorf ''invalid conditions'' [])), [])"
  using assms by (simp add: Execute_def IsValid_def)

theorem Execute_invalid_condition_witness:
  "QueriesAndExpressions \<lparr>cond_RefID = ''A'', QueriesAndExpressions = []\<rparr> = [] \<and>
   Execute failing_client no_frames \<lparr>cond_RefID = ''A'', QueriesAndExpressions = []\<rparr> =
     ((None, Some (Errorf ''invalid conditions'' [])), [])"
  using Execute_invalid_condition
          [of "\<lparr>cond_RefID = ''A'', QueriesAndExpressions = []\<rparr>" failing_client no_frames]
  by simp

text \<open>
  C4. When the transform client returns an error for a valid Condition, \<open>Execute\<close>
  returns that error as its second value, but the \<open>Error\<close> field of the returned
  \<open>executionResults\<close> is still nil: only the decode failure and the empty result set it.
  The run on \<open>sample_condition\<close> with a client that fails shows it.
\<close>

theorem Execute_remote_error_leaves_Error_unset:
  "fst (Execute failing_client no_frames sample_condition) =
     (Some \<lparr>AlertDefinitionID = 0, Error = None, Results = []\<rparr>,
      Some (LibError ''transform: connection refused''))"
  by (simp add: Execute_def IsValid_def sample_condition_def failing_client_def)

section \<open>Facts about the float64 comparison\<close>




section \<open>The loop over the series\<close>

lemma loop_step_passes:
  assumes "passes api f" and "labels (labelsStr_of api f) = None"
  shows "EvaluateExecutionResult_loop api labels acc (f # fs) =
         EvaluateExecutionResult_loop api (labels(labelsStr_of api f \<mapsto> True))
           (acc @ [verdict api f]) fs"
proof -
  from assms(1) obtain f0 where f0: "Fields f = [f0]"
    by (cases "Fields f") (auto simp: passes_def)
  from assms(1) obtain n where n: "RowLen api f = Inr n" "n \<le> 1"
    by (auto simp: passes_def split: sum.splits)
  from assms(1) f0 have ty: "Type api f0 = FieldTypeNullableFloat64"
    by (simp add: passes_def)
  from assms(2) f0 have fresh: "labels (Labels_String api (Labels f0)) = None"
    by (simp add: labelsStr_of_def)
  show ?thesis
    using f0 n ty fresh
    by (simp add: labelsStr_of_def verdict_def read_state_def Let_def)
qed

lemma loop_accepted_prefix:
  assumes "list_all (passes api) pre"
    and "distinct (map (labelsStr_of api) pre)"
    and "\<forall>f \<in> set pre. labels (labelsStr_of api f) = None"
  shows "EvaluateExecutionResult_loop api labels acc (pre @ rest) =
         EvaluateExecutionResult_loop api (mark_seen api labels pre)
           (acc @ map (verdict api) pre) rest"
  using assms
proof (induction pre arbitrary: labels acc)
  case Nil
  then show ?case by (simp add: mark_seen_def)
next
  case (Cons f pre)
  have step: "EvaluateExecutionResult_loop api labels acc ((f # pre) @ rest) =
        EvaluateExecutionResult_loop api (labels(labelsStr_of api f \<mapsto> True))
           (acc @ [verdict api f]) (pre @ rest)"
    unfolding append_Cons using Cons.prems by (intro loop_step_passes) simp_all
  have fresh: "\<forall>g \<in> set pre. (labels(labelsStr_of api f \<mapsto> True)) (labelsStr_of api g) = None"
    using Cons.prems by (auto simp: image_iff)
  have ms: "mark_seen api (labels(labelsStr_of api f \<mapsto> True)) pre = mark_seen api labels (f # pre)"
    by (auto simp: mark_seen_def fun_eq_iff)
  have "EvaluateExecutionResult_loop api (labels(labelsStr_of api f \<mapsto> True))
           (acc @ [verdict api f]) (pre @ rest) =
        EvaluateExecutionResult_loop api
           (mark_seen api (labels(labelsStr_of api f \<mapsto> True)) pre)
           ((acc @ [verdict api f]) @ map (verdict api) pre) rest"
    using Cons.prems fresh by (intro Cons.IH) simp_all
  with step ms show ?case
    by (simp del: EvaluateExecutionResult_loop.simps)
qed

lemma Evaluate_accepted_prefix:
  assumes "accepted api pre" and "Results results = pre @ rest"
  shows "EvaluateExecutionResult api results =
         EvaluateExecutionResult_loop api (mark_seen api Map.empty pre)
           (map (verdict api) pre) rest"
  using assms loop_accepted_prefix[of api pre Map.empty "[]" rest]
  by (simp add: EvaluateExecutionResult_def accepted_def)

lemma mark_seen_lookup:
  "mark_seen api Map.empty pre s = (if s \<in> labelsStr_of api ` set pre then Some True else None)"
  by (simp add: mark_seen_def)

lemma loop_success_iff:
  "EvaluateExecutionResult_loop api labels acc fs = Return (rs, None) \<longleftrightarrow>
     list_all (passes api) fs \<and> distinct (map (labelsStr_of api) fs) \<and>
     (\<forall>f \<in> set fs. labels (labelsStr_of api f) = None) \<and>
     rs = acc @ map (verdict api) fs"
proof (induction fs arbitrary: labels acc)
  case Nil
  then show ?case by auto
next
  case (Cons f fs)
  show ?case
  proof (cases "passes api f \<and> labels (labelsStr_of api f) = None")
    case True
    then have step: "EvaluateExecutionResult_loop api labels acc (f # fs) =
         EvaluateExecutionResult_loop api (labels(labelsStr_of api f \<mapsto> True))
           (acc @ [verdict api f]) fs"
      by (intro loop_step_passes) simp_all
    show ?thesis
      unfolding step Cons.IH using True by (auto simp: image_iff)
  next
    case False
    have "EvaluateExecutionResult_loop api labels acc (f # fs) \<noteq> Return (rs, None)"
      using False
      by (auto simp: passes_def labelsStr_of_def Let_def
               split: sum.splits list.splits option.splits if_splits)
    with False show ?thesis by auto
  qed
qed

section \<open>EvaluateExecutionResult: classification\<close>





lemma sample_passes:
  "length vs \<le> 1 \<Longrightarrow> passes sample_sdk (sample_frame name inst vs)"
  by (simp add: passes_def sample_sdk_def sample_frame_def sample_field_def)

lemma sample_labelsStr:
  "labelsStr_of sample_sdk (sample_frame name inst vs) = ''instance='' @ inst"
  by (simp add: labelsStr_of_def sample_sdk_def sample_frame_def sample_field_def)

lemma sample_eval_two:
  "EvaluateExecutionResult sample_sdk
     \<lparr>AlertDefinitionID = 7, Error = None,
      Results = [sample_frame ''f1'' ''a'' [Some 0], sample_frame ''f2'' ''b'' [Some 5]]\<rparr> =
   Return ([\<lparr>Instance = [''instance'' \<mapsto> ''a''], State = normal\<rparr>,
            \<lparr>Instance = [''instance'' \<mapsto> ''b''], State = Alerting\<rparr>], None)"
  by (simp add: EvaluateExecutionResult_def sample_sdk_def sample_frame_def sample_field_def
        float64_eq_def float64_isNaN_def float64_abs_bits_def float64_zero_def)


section \<open>EvaluateExecutionResult: failures abort the evaluation\<close>

lemma loop_violation:
  assumes "violates api (dom labels \<union> labelsStr_of api ` set pre) f"
  shows "(\<exists>e. EvaluateExecutionResult_loop api labels acc (pre @ f # post) = Return ([], Some e)) \<or>
         ((\<exists>g \<in> set pre. Fields g = []) \<and>
          (\<exists>msg. EvaluateExecutionResult_loop api labels acc (pre @ f # post) = Panic msg))"
  using assms
proof (induction pre arbitrary: labels acc)
  case Nil
  then have "\<exists>e. EvaluateExecutionResult_loop api labels acc (f # post) = Return ([], Some e)"
    by (auto simp: violates_def labelsStr_of_def Let_def
             split: sum.splits list.splits option.splits if_splits)
  then show ?case by simp
next
  case (Cons g pre)
  show ?case
  proof (cases "passes api g \<and> labels (labelsStr_of api g) = None")
    case True
    then have step: "EvaluateExecutionResult_loop api labels acc ((g # pre) @ f # post) =
         EvaluateExecutionResult_loop api (labels(labelsStr_of api g \<mapsto> True))
           (acc @ [verdict api g]) (pre @ f # post)"
      unfolding append_Cons by (intro loop_step_passes) simp_all
    have seen: "dom (labels(labelsStr_of api g \<mapsto> True)) \<union> labelsStr_of api ` set pre =
                dom labels \<union> labelsStr_of api ` set (g # pre)"
      by auto
    from Cons.prems have "violates api
        (dom (labels(labelsStr_of api g \<mapsto> True)) \<union> labelsStr_of api ` set pre) f"
      by (simp only: seen)
    from Cons.IH[OF this, of "acc @ [verdict api g]"] show ?thesis
      unfolding step by (fastforce simp del: fun_upd_apply)
  next
    case False
    then have "(\<exists>e. EvaluateExecutionResult_loop api labels acc (g # (pre @ f # post)) =
                    Return ([], Some e)) \<or>
               (Fields g = [] \<and>
                (\<exists>msg. EvaluateExecutionResult_loop api labels acc (g # (pre @ f # post)) =
                    Panic msg))"
      by (auto simp: passes_def labelsStr_of_def Let_def
               split: sum.splits list.splits option.splits if_splits)
    then show ?thesis
      unfolding append_Cons by (auto simp del: EvaluateExecutionResult_loop.simps)
  qed
qed

text \<open>
  C2. Let \<open>f\<close> be a series of the input that breaks a rule: its row length exceeds one
  (or cannot be read), it has more than one field, its single field is not a nullable
  float64, or its label string is that of a series before it. Then
  \<open>EvaluateExecutionResult\<close> returns an error and an empty result list, whatever the
  series before and after \<open>f\<close> are and however many of them satisfy the contract: no
  result is returned for any series. The only other outcome is the one of a series
  before \<open>f\<close> that has no field at all, where the read of \<open>f.Fields[0]\<close> panics before
  \<open>f\<close> is reached; then there is no return value either.
\<close>

theorem EvaluateExecutionResult_no_partial_results:
  assumes "Results results = pre @ f # post"
    and "violates api (labelsStr_of api ` set pre) f"
  shows "(\<exists>e. EvaluateExecutionResult api results = Return ([], Some e)) \<or>
         ((\<exists>g \<in> set pre. Fields g = []) \<and>
          (\<exists>msg. EvaluateExecutionResult api results = Panic msg))"
  using loop_violation[of api Map.empty pre f "[]" post] assms
  by (simp add: EvaluateExecutionResult_def)

lemma sample_eval_abort:
  "EvaluateExecutionResult sample_sdk
     \<lparr>AlertDefinitionID = 7, Error = None,
      Results = [sample_frame ''f1'' ''a'' [Some 0], sample_frame ''f2'' ''b'' [Some 1, Some 2],
                 sample_frame ''f3'' ''c'' [Some 0]]\<rparr> =
   Return ([], Some (Errorf ''invalid frame %q: row length: %v'' [ArgString ''f2'', ArgInt 2]))"
  by (simp add: EvaluateExecutionResult_def sample_sdk_def sample_frame_def sample_field_def
        float64_eq_def float64_isNaN_def float64_abs_bits_def float64_zero_def)

theorem EvaluateExecutionResult_no_partial_results_witness:
  "violates sample_sdk (labelsStr_of sample_sdk ` set [sample_frame ''f1'' ''a'' [Some 0]])
     (sample_frame ''f2'' ''b'' [Some 1, Some 2]) \<and>
   (\<exists>e. EvaluateExecutionResult sample_sdk
           \<lparr>AlertDefinitionID = 7, Error = None,
            Results = [sample_frame ''f1'' ''a'' [Some 0]] @
                      sample_frame ''f2'' ''b'' [Some 1, Some 2] #
                      [sample_frame ''f3'' ''c'' [Some 0]]\<rparr> = Return ([], Some e))"
proof -
  have v: "violates sample_sdk (labelsStr_of sample_sdk ` set [sample_frame ''f1'' ''a'' [Some 0]])
     (sample_frame ''f2'' ''b'' [Some 1, Some 2])"
    by (simp add: violates_def sample_sdk_def sample_frame_def sample_field_def)
  have r: "Results \<lparr>AlertDefinitionID = 7, Error = None,
            Results = [sample_frame ''f1'' ''a'' [Some 0]] @
                      sample_frame ''f2'' ''b'' [Some 1, Some 2] #
                      [sample_frame ''f3'' ''c'' [Some 0]]\<rparr> =
           [sample_frame ''f1'' ''a'' [Some 0]] @
                      sample_frame ''f2'' ''b'' [Some 1, Some 2] #
                      [sample_frame ''f3'' ''c'' [Some (0::64 word)]]"
    by simp
  from EvaluateExecutionResult_no_partial_results[OF r v] v show ?thesis
    by (auto simp: sample_frame_def)
qed

text \<open>
  C3. A series without fields whose row length reads as at most one passes the row-count
  check and the field-count check (\<open>len(f.Fields) > 1\<close> is false for length 0), and the
  next statement reads \<open>f.Fields[0]\<close>: the evaluation panics with an index out of range.
  This holds for every SDK whose \<open>RowLen\<close> returns a length for such a frame, after any
  run of series that pass.
\<close>

theorem EvaluateExecutionResult_no_fields_panics:
  assumes "Results results = pre @ f # post"
    and "accepted api pre"
    and "Fields f = []"
    and "RowLen api f = Inr rowLen" and "rowLen \<le> 1"
  shows "EvaluateExecutionResult api results =
         Panic ''runtime error: index out of range [0] with length 0''"
  using Evaluate_accepted_prefix[OF assms(2) assms(1)] assms(3-5) by simp

theorem EvaluateExecutionResult_no_fields_panics_witness:
  "accepted sample_sdk [sample_frame ''f1'' ''a'' [Some 0]] \<and>
   RowLen sample_sdk \<lparr>Name = ''empty'', Fields = []\<rparr> = Inr 0 \<and>
   EvaluateExecutionResult sample_sdk
     \<lparr>AlertDefinitionID = 7, Error = None,
      Results = [sample_frame ''f1'' ''a'' [Some 0]] @ \<lparr>Name = ''empty'', Fields = []\<rparr> # []\<rparr> =
   Panic ''runtime error: index out of range [0] with length 0''"
proof -
  have a: "accepted sample_sdk [sample_frame ''f1'' ''a'' [Some (0::64 word)]]"
    by (simp add: accepted_def sample_passes)
  have r: "RowLen sample_sdk \<lparr>Name = ''empty'', Fields = []\<rparr> = Inr 0"
    by (simp add: sample_sdk_def)
  have "EvaluateExecutionResult sample_sdk
     \<lparr>AlertDefinitionID = 7, Error = None,
      Results = [sample_frame ''f1'' ''a'' [Some 0]] @ \<lparr>Name = ''empty'', Fields = []\<rparr> # []\<rparr> =
   Panic ''runtime error: index out of range [0] with length 0''"
    by (rule EvaluateExecutionResult_no_fields_panics[OF _ a _ r]) simp_all
  with a r show ?thesis by simp
qed

section \<open>EvaluateExecutionResult: the checks one by one\<close>

text \<open>
  The loop stops at the first series that fails a check, and the checks of one series run
  in the order of the source: row count, field count, field type, label uniqueness. Each
  statement below is about a series \<open>f\<close> that the loop reaches, the series \<open>pre\<close>
  before it all passing, and that has passed the checks before the one in question.
\<close>

lemma loop_at_reached:
  assumes "accepted api pre" and "Results results = pre @ f # post"
  shows "EvaluateExecutionResult api results =
         EvaluateExecutionResult_loop api (mark_seen api Map.empty pre)
           (map (verdict api) pre) (f # post)"
  by (rule Evaluate_accepted_prefix[OF assms])

lemma Evaluate_success_iff:
  "EvaluateExecutionResult api results = Return (rs, None) \<longleftrightarrow>
     accepted api (Results results) \<and> rs = map (verdict api) (Results results)"
  by (auto simp: EvaluateExecutionResult_def loop_success_iff accepted_def)

text \<open>
  C5. If the label string of a series that passed the first three checks equals the label
  string of a series before it, \<open>EvaluateExecutionResult\<close> returns the validation error
  that names the series and the string, and no results. Consequently, whenever a list of
  results is returned without error, it holds the labels of the input series in order,
  their label strings are pairwise different, and so are the label sets themselves.
\<close>

theorem EvaluateExecutionResult_unique_labels:
  "(accepted api pre \<and> Results results = pre @ f # post \<and> passes api f \<and>
    labelsStr_of api f \<in> labelsStr_of api ` set pre \<longrightarrow>
      EvaluateExecutionResult api results =
        Return ([], Some (Errorf
          ''invalid frame %q: frames cannot uniquely be identified by its labels: %q''
          [ArgString (Name f), ArgString (labelsStr_of api f)]))) \<and>
   (EvaluateExecutionResult api results' = Return (rs, None) \<longrightarrow>
      map Instance rs = map (\<lambda>f. Labels (hd (Fields f))) (Results results') \<and>
      distinct (map (\<lambda>r. Labels_String api (Instance r)) rs) \<and>
      distinct (map Instance rs))"
proof (intro conjI impI)
  assume h: "accepted api pre \<and> Results results = pre @ f # post \<and> passes api f \<and>
    labelsStr_of api f \<in> labelsStr_of api ` set pre"
  then obtain f0 where f0: "Fields f = [f0]"
    by (cases "Fields f") (auto simp: passes_def)
  from h obtain n where n: "RowLen api f = Inr n" "n \<le> 1"
    by (auto simp: passes_def split: sum.splits)
  from h f0 have ty: "Type api f0 = FieldTypeNullableFloat64"
    by (simp add: passes_def)
  from h f0 have seen: "mark_seen api Map.empty pre (Labels_String api (Labels f0)) = Some True"
    by (simp add: mark_seen_lookup labelsStr_of_def)
  from h have "EvaluateExecutionResult api results =
         EvaluateExecutionResult_loop api (mark_seen api Map.empty pre)
           (map (verdict api) pre) (f # post)"
    by (intro loop_at_reached) simp_all
  then show "EvaluateExecutionResult api results =
        Return ([], Some (Errorf
          ''invalid frame %q: frames cannot uniquely be identified by its labels: %q''
          [ArgString (Name f), ArgString (labelsStr_of api f)]))"
    using f0 n ty seen by (simp add: labelsStr_of_def)
next
  assume "EvaluateExecutionResult api results' = Return (rs, None)"
  then have a: "accepted api (Results results')" and rs: "rs = map (verdict api) (Results results')"
    by (simp_all add: Evaluate_success_iff)
  show "map Instance rs = map (\<lambda>f. Labels (hd (Fields f))) (Results results')"
    by (simp add: rs verdict_def)
  have e: "map (\<lambda>r. Labels_String api (Instance r)) rs = map (labelsStr_of api) (Results results')"
    by (simp add: rs verdict_def labelsStr_of_def)
  from a show d: "distinct (map (\<lambda>r. Labels_String api (Instance r)) rs)"
    by (simp add: e accepted_def)
  have "map (\<lambda>r. Labels_String api (Instance r)) rs = map (Labels_String api) (map Instance rs)"
    by simp
  with d show "distinct (map Instance rs)"
    by (metis distinct_map)
qed

lemma sample_eval_duplicate:
  "EvaluateExecutionResult sample_sdk
     \<lparr>AlertDefinitionID = 7, Error = None,
      Results = [sample_frame ''f1'' ''a'' [Some 0], sample_frame ''f2'' ''a'' [Some 5]]\<rparr> =
   Return ([], Some (Errorf
          ''invalid frame %q: frames cannot uniquely be identified by its labels: %q''
          [ArgString ''f2'', ArgString ''instance=a'']))"
  by (simp add: EvaluateExecutionResult_def sample_sdk_def sample_frame_def sample_field_def
        float64_eq_def float64_isNaN_def float64_abs_bits_def float64_zero_def)

theorem EvaluateExecutionResult_unique_labels_witness:
  "accepted sample_sdk [sample_frame ''f1'' ''a'' [Some 0]] \<and>
   passes sample_sdk (sample_frame ''f2'' ''a'' [Some 5]) \<and>
   labelsStr_of sample_sdk (sample_frame ''f2'' ''a'' [Some 5]) \<in>
     labelsStr_of sample_sdk ` set [sample_frame ''f1'' ''a'' [Some 0]] \<and>
   EvaluateExecutionResult sample_sdk
     \<lparr>AlertDefinitionID = 7, Error = None,
      Results = [sample_frame ''f1'' ''a'' [Some 0]] @ sample_frame ''f2'' ''a'' [Some 5] # []\<rparr> =
     Return ([], Some (Errorf
          ''invalid frame %q: frames cannot uniquely be identified by its labels: %q''
          [ArgString ''f2'', ArgString ''instance=a''])) \<and>
   EvaluateExecutionResult sample_sdk
     \<lparr>AlertDefinitionID = 7, Error = None,
      Results = [sample_frame ''f1'' ''a'' [Some 0], sample_frame ''f2'' ''b'' [Some 5]]\<rparr> =
     Return ([\<lparr>Instance = [''instance'' \<mapsto> ''a''], State = normal\<rparr>,
              \<lparr>Instance = [''instance'' \<mapsto> ''b''], State = Alerting\<rparr>], None) \<and>
   distinct (map Instance
     [\<lparr>Instance = [''instance'' \<mapsto> ''a''], State = normal\<rparr>,
      \<lparr>Instance = [''instance'' \<mapsto> ''b''], State = Alerting\<rparr>])"
proof -
  have a: "accepted sample_sdk [sample_frame ''f1'' ''a'' [Some (0::64 word)]]"
    by (simp add: accepted_def sample_passes)
  have p: "passes sample_sdk (sample_frame ''f2'' ''a'' [Some (5::64 word)])"
    by (simp add: sample_passes)
  have m: "labelsStr_of sample_sdk (sample_frame ''f2'' ''a'' [Some (5::64 word)]) \<in>
     labelsStr_of sample_sdk ` set [sample_frame ''f1'' ''a'' [Some (0::64 word)]]"
    by (simp add: sample_labelsStr)
  have e2: "EvaluateExecutionResult sample_sdk
     \<lparr>AlertDefinitionID = 7, Error = None,
      Results = [sample_frame ''f1'' ''a'' [Some 0], sample_frame ''f2'' ''b'' [Some 5]]\<rparr> =
     Return ([\<lparr>Instance = [''instance'' \<mapsto> ''a''], State = normal\<rparr>,
              \<lparr>Instance = [''instance'' \<mapsto> ''b''], State = Alerting\<rparr>], None)"
    by (rule sample_eval_two)
  note t = EvaluateExecutionResult_unique_labels
    [of sample_sdk "[sample_frame ''f1'' ''a'' [Some 0]]"
        "\<lparr>AlertDefinitionID = 7, Error = None,
          Results = [sample_frame ''f1'' ''a'' [Some 0]] @ sample_frame ''f2'' ''a'' [Some 5] # []\<rparr>"
        "sample_frame ''f2'' ''a'' [Some 5]" "[]"
        "\<lparr>AlertDefinitionID = 7, Error = None,
          Results = [sample_frame ''f1'' ''a'' [Some 0], sample_frame ''f2'' ''b'' [Some 5]]\<rparr>"
        "[\<lparr>Instance = [''instance'' \<mapsto> ''a''], State = normal\<rparr>,
          \<lparr>Instance = [''instance'' \<mapsto> ''b''], State = Alerting\<rparr>]"]
  have c1: "EvaluateExecutionResult sample_sdk
     \<lparr>AlertDefinitionID = 7, Error = None,
      Results = [sample_frame ''f1'' ''a'' [Some 0]] @ sample_frame ''f2'' ''a'' [Some 5] # []\<rparr> =
     Return ([], Some (Errorf
          ''invalid frame %q: frames cannot uniquely be identified by its labels: %q''
          [ArgString (Name (sample_frame ''f2'' ''a'' [Some (5::64 word)])),
           ArgString (labelsStr_of sample_sdk (sample_frame ''f2'' ''a'' [Some (5::64 word)]))]))"
    using t [THEN conjunct1] a p m by simp
  have c2: "distinct (map Instance
     [\<lparr>Instance = [''instance'' \<mapsto> ''a''], State = normal\<rparr>,
      \<lparr>Instance = [''instance'' \<mapsto> ''b''], State = Alerting\<rparr>])"
    using t [THEN conjunct2] e2 by blast
  have nm: "Name (sample_frame ''f2'' ''a'' [Some (5::64 word)]) = ''f2''"
    by (simp add: sample_frame_def)
  from c1 have c1': "EvaluateExecutionResult sample_sdk
     \<lparr>AlertDefinitionID = 7, Error = None,
      Results = [sample_frame ''f1'' ''a'' [Some 0]] @ sample_frame ''f2'' ''a'' [Some 5] # []\<rparr> =
     Return ([], Some (Errorf
          ''invalid frame %q: frames cannot uniquely be identified by its labels: %q''
          [ArgString ''f2'', ArgString ''instance=a'']))"
    by (simp only: nm sample_labelsStr append.simps)
  from a p m c1' e2 c2 show ?thesis by (intro conjI)
qed

text \<open>
  A series whose row length is more than one makes \<open>EvaluateExecutionResult\<close> return the
  validation error that names the series and the row length, and no results; nothing is
  asked of its fields or values. A row length of zero is not stopped by this check
  (\<open>passes\<close> admits it): the body goes on to the other checks and to \<open>FloatAt(0)\<close>.
\<close>

lemma EvaluateExecutionResult_row_length_error:
  assumes "accepted api pre" and "Results results = pre @ f # post"
    and "RowLen api f = Inr rowLen" and "1 < rowLen"
  shows "EvaluateExecutionResult api results =
         Return ([], Some (Errorf ''invalid frame %q: row length: %v''
                             [ArgString (Name f), ArgInt rowLen]))"
  using loop_at_reached[OF assms(1,2)] assms(3,4) by simp

text \<open>
  C7. A series that passed the row-count check and has more than one field makes
  \<open>EvaluateExecutionResult\<close> return the validation error that names the series and the
  number of fields. A series that passed the row-count check and has a single field of
  another type than nullable float64 makes it return the validation error that names the
  series and that type. In both cases no results are returned.
\<close>

theorem EvaluateExecutionResult_field_checks:
  "(accepted api pre \<and> Results results = pre @ f # post \<and>
    RowLen api f = Inr rowLen \<and> rowLen \<le> 1 \<and> 1 < length (Fields f) \<longrightarrow>
      EvaluateExecutionResult api results =
        Return ([], Some (Errorf ''invalid frame %q: field length %v''
                            [ArgString (Name f), ArgInt (int (length (Fields f)))]))) \<and>
   (accepted api pre' \<and> Results results' = pre' @ f' # post' \<and>
    RowLen api f' = Inr rowLen' \<and> rowLen' \<le> 1 \<and> Fields f' = [f0] \<and>
    Type api f0 \<noteq> FieldTypeNullableFloat64 \<longrightarrow>
      EvaluateExecutionResult api results' =
        Return ([], Some (Errorf ''invalid frame %q: field type %v''
                            [ArgString (Name f'), ArgFieldType (Type api f0)])))"
proof (intro conjI impI)
  assume h: "accepted api pre \<and> Results results = pre @ f # post \<and>
    RowLen api f = Inr rowLen \<and> rowLen \<le> 1 \<and> 1 < length (Fields f)"
  then have "EvaluateExecutionResult api results =
         EvaluateExecutionResult_loop api (mark_seen api Map.empty pre)
           (map (verdict api) pre) (f # post)"
    by (intro loop_at_reached) simp_all
  with h show "EvaluateExecutionResult api results =
        Return ([], Some (Errorf ''invalid frame %q: field length %v''
                            [ArgString (Name f), ArgInt (int (length (Fields f)))]))"
    by simp
next
  assume h: "accepted api pre' \<and> Results results' = pre' @ f' # post' \<and>
    RowLen api f' = Inr rowLen' \<and> rowLen' \<le> 1 \<and> Fields f' = [f0] \<and>
    Type api f0 \<noteq> FieldTypeNullableFloat64"
  then have "EvaluateExecutionResult api results' =
         EvaluateExecutionResult_loop api (mark_seen api Map.empty pre')
           (map (verdict api) pre') (f' # post')"
    by (intro loop_at_reached) simp_all
  with h show "EvaluateExecutionResult api results' =
        Return ([], Some (Errorf ''invalid frame %q: field type %v''
                            [ArgString (Name f'), ArgFieldType (Type api f0)]))"
    by simp
qed

theorem EvaluateExecutionResult_field_checks_witness:
  "accepted sample_sdk [sample_frame ''f1'' ''a'' [Some 0]] \<and>
   EvaluateExecutionResult sample_sdk
     \<lparr>AlertDefinitionID = 7, Error = None,
      Results = [sample_frame ''f1'' ''a'' [Some 0]] @
        \<lparr>Name = ''wide'',
         Fields = [sample_field ''b'' FieldTypeNullableFloat64 [Some 1],
                   sample_field ''c'' FieldTypeNullableFloat64 [Some 2]]\<rparr> # []\<rparr> =
     Return ([], Some (Errorf ''invalid frame %q: field length %v''
                         [ArgString ''wide'', ArgInt 2])) \<and>
   EvaluateExecutionResult sample_sdk
     \<lparr>AlertDefinitionID = 7, Error = None,
      Results = [sample_frame ''f1'' ''a'' [Some 0]] @
        \<lparr>Name = ''text'', Fields = [sample_field ''b'' (FieldTypeOther 3) [Some 1]]\<rparr> # []\<rparr> =
     Return ([], Some (Errorf ''invalid frame %q: field type %v''
                         [ArgString ''text'', ArgFieldType (FieldTypeOther 3)]))"
proof -
  have a1: "accepted sample_sdk [sample_frame ''f1'' ''a'' [Some (0::64 word)]]"
    by (simp add: accepted_def sample_passes)
  note t = EvaluateExecutionResult_field_checks
    [of sample_sdk "[sample_frame ''f1'' ''a'' [Some 0]]"
        "\<lparr>AlertDefinitionID = 7, Error = None,
      Results = [sample_frame ''f1'' ''a'' [Some 0]] @
        \<lparr>Name = ''wide'',
         Fields = [sample_field ''b'' FieldTypeNullableFloat64 [Some 1],
                   sample_field ''c'' FieldTypeNullableFloat64 [Some 2]]\<rparr> # []\<rparr>"
        "\<lparr>Name = ''wide'',
         Fields = [sample_field ''b'' FieldTypeNullableFloat64 [Some 1],
                   sample_field ''c'' FieldTypeNullableFloat64 [Some 2]]\<rparr>" "[]" 1
        "[sample_frame ''f1'' ''a'' [Some 0]]"
        "\<lparr>AlertDefinitionID = 7, Error = None,
      Results = [sample_frame ''f1'' ''a'' [Some 0]] @
        \<lparr>Name = ''text'', Fields = [sample_field ''b'' (FieldTypeOther 3) [Some 1]]\<rparr> # []\<rparr>"
        "\<lparr>Name = ''text'', Fields = [sample_field ''b'' (FieldTypeOther 3) [Some 1]]\<rparr>" "[]" 1
        "sample_field ''b'' (FieldTypeOther 3) [Some 1]"]
  have c1: "EvaluateExecutionResult sample_sdk
     \<lparr>AlertDefinitionID = 7, Error = None,
      Results = [sample_frame ''f1'' ''a'' [Some 0]] @
        \<lparr>Name = ''wide'',
         Fields = [sample_field ''b'' FieldTypeNullableFloat64 [Some 1],
                   sample_field ''c'' FieldTypeNullableFloat64 [Some 2]]\<rparr> # []\<rparr> =
     Return ([], Some (Errorf ''invalid frame %q: field length %v''
                         [ArgString ''wide'', ArgInt 2]))"
    using t [THEN conjunct1] a1 by (simp add: sample_sdk_def sample_field_def)
  have c2: "EvaluateExecutionResult sample_sdk
     \<lparr>AlertDefinitionID = 7, Error = None,
      Results = [sample_frame ''f1'' ''a'' [Some 0]] @
        \<lparr>Name = ''text'', Fields = [sample_field ''b'' (FieldTypeOther 3) [Some 1]]\<rparr> # []\<rparr> =
     Return ([], Some (Errorf ''invalid frame %q: field type %v''
                         [ArgString ''text'', ArgFieldType (FieldTypeOther 3)]))"
    using t [THEN conjunct2] a1 by (simp add: sample_sdk_def sample_field_def)
  from a1 c1 c2 show ?thesis by (intro conjI)
qed

section \<open>Execute: the request\<close>

lemma go_quo_pos_divisor:
  assumes "0 < m"
  shows "go_quo x m = (if 0 \<le> x then x div m else - ((- x) div m))"
  using assms by (auto simp: go_quo_def sgn_if)

lemma go_quo_bounds:
  assumes "0 < m" and "- B \<le> x" and "x < B"
  shows "- B \<le> go_quo x m \<and> go_quo x m < B"
proof (cases "0 \<le> x")
  case True
  then have "0 \<le> x div m" and "x div m \<le> x"
    using assms(1) zdiv_mono2[of x 1 m] by (simp_all add: pos_imp_zdiv_nonneg_iff)
  with True assms show ?thesis by (simp add: go_quo_pos_divisor)
next
  case False
  then have "0 \<le> (- x) div m" and "(- x) div m \<le> - x"
    using assms(1) zdiv_mono2[of "- x" 1 m] by (simp_all add: pos_imp_zdiv_nonneg_iff)
  with False assms show ?thesis by (simp add: go_quo_pos_divisor)
qed

lemma sint_int64_quo:
  "sint (int64_quo a 1000000) =
     (if 0 \<le> sint a then sint a div 1000000 else - ((- sint a) div 1000000))"
proof -
  have s: "sint (1000000 :: int64) = 1000000" by simp
  have lo: "- (2 ^ 63) \<le> sint a" using sint_ge[of a] by simp
  have hi: "sint a < 2 ^ 63" using sint_lt[of a] by simp
  have b: "- (2 ^ 63) \<le> go_quo (sint a) 1000000 \<and> go_quo (sint a) 1000000 < 2 ^ 63"
    by (rule go_quo_bounds[OF _ lo hi]) simp
  have "sint (word_of_int (go_quo (sint a) 1000000) :: int64) = go_quo (sint a) 1000000"
    unfolding sint_sbintrunc' using b
    by (intro signed_take_bit_int_eq_self) simp_all
  then show ?thesis
    by (simp only: int64_quo_def s) (simp add: go_quo_pos_divisor)
qed

lemma Execute_queries_map:
  "Execute_queries queries qs = queries @ map Execute_query qs"
  by (induction qs arbitrary: queries) (simp_all add: Execute_query_def)

lemma Execute_calls:
  assumes "QueriesAndExpressions c \<noteq> []"
  shows "snd (Execute TransformData Decoded c) =
         [\<lparr>Queries = map Execute_query (QueriesAndExpressions c)\<rparr>]"
  using assms
  by (simp add: Execute_def IsValid_def Execute_queries_map Let_def
           split: sum.splits prod.splits)

text \<open>
  C8. For a Condition with at least one query, \<open>Execute\<close> sends exactly one request to
  the transform client. Its query list has one descriptor per query of the Condition, at
  the same position, with the same JSON payload, RefID, query type and MaxDataPoints; the
  descriptor's interval is the query's interval in nanoseconds divided by 1,000,000 and
  each bound of its time range is the bound's UnixNano value divided by 1,000,000, the
  quotients truncated toward zero (read as signed 64-bit values, without wrap-around).
\<close>

theorem Execute_translates_queries:
  assumes "QueriesAndExpressions c \<noteq> []"
  shows "\<exists>req. snd (Execute TransformData Decoded c) = [req] \<and>
           length (Queries req) = length (QueriesAndExpressions c) \<and>
           (\<forall>i < length (QueriesAndExpressions c).
              pb_Json (Queries req ! i) = JSON (QueriesAndExpressions c ! i) \<and>
              pb_RefId (Queries req ! i) = RefID (QueriesAndExpressions c ! i) \<and>
              pb_QueryType (Queries req ! i) = QueryType (QueriesAndExpressions c ! i) \<and>
              pb_MaxDataPoints (Queries req ! i) = MaxDataPoints (QueriesAndExpressions c ! i) \<and>
              sint (pb_IntervalMS (Queries req ! i)) =
                (if 0 \<le> sint (Interval (QueriesAndExpressions c ! i))
                 then sint (Interval (QueriesAndExpressions c ! i)) div 1000000
                 else - ((- sint (Interval (QueriesAndExpressions c ! i))) div 1000000)) \<and>
              sint (FromEpochMS (pb_TimeRange (Queries req ! i))) =
                (if 0 \<le> sint (UnixNano (From (TimeRange (QueriesAndExpressions c ! i))))
                 then sint (UnixNano (From (TimeRange (QueriesAndExpressions c ! i)))) div 1000000
                 else - ((- sint (UnixNano (From (TimeRange (QueriesAndExpressions c ! i))))) div 1000000)) \<and>
              sint (ToEpochMS (pb_TimeRange (Queries req ! i))) =
                (if 0 \<le> sint (UnixNano (To (TimeRange (QueriesAndExpressions c ! i))))
                 then sint (UnixNano (To (TimeRange (QueriesAndExpressions c ! i)))) div 1000000
                 else - ((- sint (UnixNano (To (TimeRange (QueriesAndExpressions c ! i))))) div 1000000)))"
proof (intro exI conjI allI impI)
  show "snd (Execute TransformData Decoded c) =
        [\<lparr>Queries = map Execute_query (QueriesAndExpressions c)\<rparr>]"
    by (rule Execute_calls[OF assms])
next
  show "length (Queries \<lparr>Queries = map Execute_query (QueriesAndExpressions c)\<rparr>) =
        length (QueriesAndExpressions c)"
    by simp
next
  fix i assume i: "i < length (QueriesAndExpressions c)"
  then have q: "Queries \<lparr>Queries = map Execute_query (QueriesAndExpressions c)\<rparr> ! i =
                Execute_query (QueriesAndExpressions c ! i)"
    by simp
  show "pb_Json (Queries \<lparr>Queries = map Execute_query (QueriesAndExpressions c)\<rparr> ! i) =
        JSON (QueriesAndExpressions c ! i)"
    unfolding q by (simp add: Execute_query_def)
  show "pb_RefId (Queries \<lparr>Queries = map Execute_query (QueriesAndExpressions c)\<rparr> ! i) =
        RefID (QueriesAndExpressions c ! i)"
    unfolding q by (simp add: Execute_query_def)
  show "pb_QueryType (Queries \<lparr>Queries = map Execute_query (QueriesAndExpressions c)\<rparr> ! i) =
        QueryType (QueriesAndExpressions c ! i)"
    unfolding q by (simp add: Execute_query_def)
  show "pb_MaxDataPoints (Queries \<lparr>Queries = map Execute_query (QueriesAndExpressions c)\<rparr> ! i) =
        MaxDataPoints (QueriesAndExpressions c ! i)"
    unfolding q by (simp add: Execute_query_def)
  show "sint (pb_IntervalMS (Queries \<lparr>Queries = map Execute_query (QueriesAndExpressions c)\<rparr> ! i)) =
        (if 0 \<le> sint (Interval (QueriesAndExpressions c ! i))
         then sint (Interval (QueriesAndExpressions c ! i)) div 1000000
         else - ((- sint (Interval (QueriesAndExpressions c ! i))) div 1000000))"
    unfolding q by (simp only: Execute_query_def pluginv2_DataQuery.simps Milliseconds_def sint_int64_quo)
  show "sint (FromEpochMS (pb_TimeRange (Queries \<lparr>Queries = map Execute_query (QueriesAndExpressions c)\<rparr> ! i))) =
        (if 0 \<le> sint (UnixNano (From (TimeRange (QueriesAndExpressions c ! i))))
         then sint (UnixNano (From (TimeRange (QueriesAndExpressions c ! i)))) div 1000000
         else - ((- sint (UnixNano (From (TimeRange (QueriesAndExpressions c ! i))))) div 1000000))"
    unfolding q
    by (simp only: Execute_query_def pluginv2_DataQuery.simps pluginv2_TimeRange.simps sint_int64_quo)
  show "sint (ToEpochMS (pb_TimeRange (Queries \<lparr>Queries = map Execute_query (QueriesAndExpressions c)\<rparr> ! i))) =
        (if 0 \<le> sint (UnixNano (To (TimeRange (QueriesAndExpressions c ! i))))
         then sint (UnixNano (To (TimeRange (QueriesAndExpressions c ! i)))) div 1000000
         else - ((- sint (UnixNano (To (TimeRange (QueriesAndExpressions c ! i))))) div 1000000))"
    unfolding q
    by (simp only: Execute_query_def pluginv2_DataQuery.simps pluginv2_TimeRange.simps sint_int64_quo)
qed

theorem Execute_translates_queries_witness:
  "QueriesAndExpressions sample_condition \<noteq> [] \<and>
   (\<exists>req. snd (Execute failing_client no_frames sample_condition) = [req] \<and>
      length (Queries req) = 1 \<and>
      pb_RefId (Queries req ! 0) = ''A'' \<and>
      sint (pb_IntervalMS (Queries req ! 0)) = 1500 \<and>
      sint (FromEpochMS (pb_TimeRange (Queries req ! 0))) = 1600000000123 \<and>
      sint (ToEpochMS (pb_TimeRange (Queries req ! 0))) = - 1)"
proof -
  have ne: "QueriesAndExpressions sample_condition \<noteq> []"
    by (simp add: sample_condition_def)
  have q0: "QueriesAndExpressions sample_condition ! 0 = sample_query"
    and l: "length (QueriesAndExpressions sample_condition) = 1"
    by (simp_all add: sample_condition_def)
  have i: "sint (Interval sample_query) = 1500000999"
    and f: "sint (UnixNano (From (TimeRange sample_query))) = 1600000000123456789"
    and t: "sint (UnixNano (To (TimeRange sample_query))) = - 1999999"
    and r: "RefID sample_query = ''A''"
    by (simp_all add: sample_query_def)
  from Execute_translates_queries[OF ne, of failing_client no_frames]
  obtain req where req: "snd (Execute failing_client no_frames sample_condition) = [req]"
    "length (Queries req) = length (QueriesAndExpressions sample_condition)"
    "\<forall>i < length (QueriesAndExpressions sample_condition).
              pb_Json (Queries req ! i) = JSON (QueriesAndExpressions sample_condition ! i) \<and>
              pb_RefId (Queries req ! i) = RefID (QueriesAndExpressions sample_condition ! i) \<and>
              pb_QueryType (Queries req ! i) = QueryType (QueriesAndExpressions sample_condition ! i) \<and>
              pb_MaxDataPoints (Queries req ! i) = MaxDataPoints (QueriesAndExpressions sample_condition ! i) \<and>
              sint (pb_IntervalMS (Queries req ! i)) =
                (if 0 \<le> sint (Interval (QueriesAndExpressions sample_condition ! i))
                 then sint (Interval (QueriesAndExpressions sample_condition ! i)) div 1000000
                 else - ((- sint (Interval (QueriesAndExpressions sample_condition ! i))) div 1000000)) \<and>
              sint (FromEpochMS (pb_TimeRange (Queries req ! i))) =
                (if 0 \<le> sint (UnixNano (From (TimeRange (QueriesAndExpressions sample_condition ! i))))
                 then sint (UnixNano (From (TimeRange (QueriesAndExpressions sample_condition ! i)))) div 1000000
                 else - ((- sint (UnixNano (From (TimeRange (QueriesAndExpressions sample_condition ! i))))) div 1000000)) \<and>
              sint (ToEpochMS (pb_TimeRange (Queries req ! i))) =
                (if 0 \<le> sint (UnixNano (To (TimeRange (QueriesAndExpressions sample_condition ! i))))
                 then sint (UnixNano (To (TimeRange (QueriesAndExpressions sample_condition ! i)))) div 1000000
                 else - ((- sint (UnixNano (To (TimeRange (QueriesAndExpressions sample_condition ! i))))) div 1000000))"
    by blast
  from req(3) l have at0:
    "pb_RefId (Queries req ! 0) = RefID (QueriesAndExpressions sample_condition ! 0)"
    "sint (pb_IntervalMS (Queries req ! 0)) =
       (if 0 \<le> sint (Interval (QueriesAndExpressions sample_condition ! 0))
        then sint (Interval (QueriesAndExpressions sample_condition ! 0)) div 1000000
        else - ((- sint (Interval (QueriesAndExpressions sample_condition ! 0))) div 1000000))"
    "sint (FromEpochMS (pb_TimeRange (Queries req ! 0))) =
       (if 0 \<le> sint (UnixNano (From (TimeRange (QueriesAndExpressions sample_condition ! 0))))
        then sint (UnixNano (From (TimeRange (QueriesAndExpressions sample_condition ! 0)))) div 1000000
        else - ((- sint (UnixNano (From (TimeRange (QueriesAndExpressions sample_condition ! 0))))) div 1000000))"
    "sint (ToEpochMS (pb_TimeRange (Queries req ! 0))) =
       (if 0 \<le> sint (UnixNano (To (TimeRange (QueriesAndExpressions sample_condition ! 0))))
        then sint (UnixNano (To (TimeRange (QueriesAndExpressions sample_condition ! 0)))) div 1000000
        else - ((- sint (UnixNano (To (TimeRange (QueriesAndExpressions sample_condition ! 0))))) div 1000000))"
    by simp_all
  have "pb_RefId (Queries req ! 0) = ''A''"
    and "sint (pb_IntervalMS (Queries req ! 0)) = 1500"
    and "sint (FromEpochMS (pb_TimeRange (Queries req ! 0))) = 1600000000123"
    and "sint (ToEpochMS (pb_TimeRange (Queries req ! 0))) = - 1"
    using at0 by (simp_all only: q0 i f t r) simp_all
  with ne req(1) req(2) l show ?thesis by auto
qed

section \<open>Execute: the response\<close>

lemma Execute_responses_filter:
  "Execute_responses Decoded r result rs =
   Execute_responses Decoded r result (filter (\<lambda>(refID, res). refID = r) rs)"
  by (induction rs arbitrary: result) (auto split: prod.splits option.splits)

lemma Execute_responses_no_series:
  assumes "Results result = []"
    and "\<forall>(refID, res) \<in> set rs. refID = r \<longrightarrow> Decoded (Frames res) = ([], None)"
  shows "Execute_responses Decoded r result rs = Inr result"
  using assms by (induction rs arbitrary: result) (auto split: prod.splits option.splits)

text \<open>
  C9. \<open>Execute\<close> gives the same result when every entry of the response whose refID
  differs from the Condition's RefID is removed: such entries are ignored. When the
  client answers a valid Condition and no entry has the Condition's RefID, or the entry
  that has it decodes without error to zero frames, \<open>Execute\<close> returns the error
  \<open>no GEL results\<close>, also stored in the \<open>Error\<close> field of the returned result, whose
  frames are empty. This error differs from the one for an invalid Condition.
\<close>

theorem Execute_selects_RefID:
  "Execute TransformData Decoded c =
     Execute (\<lambda>req. case TransformData req of
                       Inl err \<Rightarrow> Inl err
                     | Inr pbRes \<Rightarrow>
                         Inr (pbRes\<lparr>Responses :=
                                filter (\<lambda>(refID, res). refID = cond_RefID c) (Responses pbRes)\<rparr>))
       Decoded c \<and>
   (QueriesAndExpressions c' \<noteq> [] \<and>
    TransformData' \<lparr>Queries = Execute_queries [] (QueriesAndExpressions c')\<rparr> = Inr pbRes' \<and>
    (\<forall>(refID, res) \<in> set (Responses pbRes').
        refID = cond_RefID c' \<longrightarrow> Decoded' (Frames res) = ([], None)) \<longrightarrow>
      fst (Execute TransformData' Decoded' c') =
        (Some \<lparr>AlertDefinitionID = 0, Error = Some (Errorf ''no GEL results'' []), Results = []\<rparr>,
         Some (Errorf ''no GEL results'' [])) \<and>
      Errorf ''no GEL results'' [] \<noteq> Errorf ''invalid conditions'' [])"
proof (intro conjI impI)
  show "Execute TransformData Decoded c =
     Execute (\<lambda>req. case TransformData req of
                       Inl err \<Rightarrow> Inl err
                     | Inr pbRes \<Rightarrow>
                         Inr (pbRes\<lparr>Responses :=
                                filter (\<lambda>(refID, res). refID = cond_RefID c) (Responses pbRes)\<rparr>))
       Decoded c"
    using Execute_responses_filter[of Decoded "cond_RefID c"]
    by (simp add: Execute_def Let_def split: sum.splits)
next
  assume h: "QueriesAndExpressions c' \<noteq> [] \<and>
    TransformData' \<lparr>Queries = Execute_queries [] (QueriesAndExpressions c')\<rparr> = Inr pbRes' \<and>
    (\<forall>(refID, res) \<in> set (Responses pbRes').
        refID = cond_RefID c' \<longrightarrow> Decoded' (Frames res) = ([], None))"
  then have "Execute_responses Decoded' (cond_RefID c')
               \<lparr>AlertDefinitionID = 0, Error = None, Results = []\<rparr> (Responses pbRes') =
             Inr \<lparr>AlertDefinitionID = 0, Error = None, Results = []\<rparr>"
    by (intro Execute_responses_no_series) simp_all
  with h show "fst (Execute TransformData' Decoded' c') =
        (Some \<lparr>AlertDefinitionID = 0, Error = Some (Errorf ''no GEL results'' []), Results = []\<rparr>,
         Some (Errorf ''no GEL results'' []))"
    by (simp add: Execute_def IsValid_def Let_def)
next
  show "Errorf ''no GEL results'' [] \<noteq> Errorf ''invalid conditions'' []" by simp
qed

theorem Execute_selects_RefID_witness:
  "QueriesAndExpressions sample_condition \<noteq> [] \<and>
   sample_client \<lparr>Queries = Execute_queries [] (QueriesAndExpressions sample_condition)\<rparr> =
     Inr \<lparr>Responses = [(''B'', \<lparr>Frames = [[1, 2, 3]]\<rparr>), (''A'', \<lparr>Frames = []\<rparr>)]\<rparr> \<and>
   sample_Decoded (Frames \<lparr>Frames = []\<rparr>) = ([], None) \<and>
   fst (Execute sample_client sample_Decoded sample_condition) =
     (Some \<lparr>AlertDefinitionID = 0, Error = Some (Errorf ''no GEL results'' []), Results = []\<rparr>,
      Some (Errorf ''no GEL results'' []))"
proof -
  have ne: "QueriesAndExpressions sample_condition \<noteq> []"
    by (simp add: sample_condition_def)
  have cl: "sample_client \<lparr>Queries = Execute_queries [] (QueriesAndExpressions sample_condition)\<rparr> =
     Inr \<lparr>Responses = [(''B'', \<lparr>Frames = [[1, 2, 3]]\<rparr>), (''A'', \<lparr>Frames = []\<rparr>)]\<rparr>"
    by (simp add: sample_client_def)
  have de: "sample_Decoded (Frames \<lparr>Frames = []\<rparr>) = ([], None)"
    by (simp add: sample_Decoded_def)
  have al: "\<forall>(refID, res) \<in> set (Responses
              \<lparr>Responses = [(''B'', \<lparr>Frames = [[1, 2, 3]]\<rparr>), (''A'', \<lparr>Frames = []\<rparr>)]\<rparr>).
        refID = cond_RefID sample_condition \<longrightarrow> sample_Decoded (Frames res) = ([], None)"
    by (simp add: sample_condition_def sample_Decoded_def)
  have "fst (Execute sample_client sample_Decoded sample_condition) =
     (Some \<lparr>AlertDefinitionID = 0, Error = Some (Errorf ''no GEL results'' []), Results = []\<rparr>,
      Some (Errorf ''no GEL results'' []))"
    using Execute_selects_RefID[THEN conjunct2, of sample_condition sample_client _ sample_Decoded]
      ne cl al by blast
  with ne cl de show ?thesis by (intro conjI)
qed

end
